theory Spec2Isabelle
  imports Main "HOL-Library.Word"
begin

section \<open>Signing roots and signature domains (beacon-chain/core/helpers/signing_root.go)\<close>

text \<open>
  The file holds three Go functions and one private helper:
  \<^verbatim>\<open>ComputeSigningRoot\<close>, \<^verbatim>\<open>ComputeDomain\<close>, \<^verbatim>\<open>domain\<close> and
  \<^verbatim>\<open>computeForkDataRoot\<close>. They call one external function,
  \<^verbatim>\<open>ssz.HashTreeRoot\<close> (package go-ssz), and read two fields of the value returned by
  \<^verbatim>\<open>params.BeaconConfig()\<close>. Both are parameters of the model: every theorem below
  holds for any hashing engine and any configuration.
\<close>

subsection \<open>Bytes, slices and fixed-size arrays\<close>

type_synonym byte = "8 word"

text \<open>
  A Go \<^verbatim>\<open>[]byte\<close> is either \<^verbatim>\<open>nil\<close> or a sequence of bytes; the source tests
  \<^verbatim>\<open>forkVersion == nil\<close>, and a non-nil slice of length 0 is not \<^verbatim>\<open>nil\<close>.
  \<open>None\<close> is the nil slice.
\<close>

type_synonym slice = "byte list option"

definition slice_bytes :: "slice \<Rightarrow> byte list" where
  "slice_bytes s = (case s of None \<Rightarrow> [] | Some xs \<Rightarrow> xs)"

text \<open>\<^verbatim>\<open>const ForkVersionByteLength = 4\<close> and \<^verbatim>\<open>const DomainByteLength = 4\<close>.\<close>

definition ForkVersionByteLength :: nat where
  "ForkVersionByteLength = 4"

definition DomainByteLength :: nat where
  "DomainByteLength = 4"

text \<open>The array types \<^verbatim>\<open>[4]byte\<close> and \<^verbatim>\<open>[32]byte\<close>: the length is part of the type.\<close>

typedef bytes4 = "{xs :: byte list. length xs = 4}"
  morphisms bytes4_list Abs_bytes4
  by (rule exI [of _ "replicate 4 0"]) simp

typedef bytes32 = "{xs :: byte list. length xs = 32}"
  morphisms bytes32_list Abs_bytes32
  by (rule exI [of _ "replicate 32 0"]) simp

text \<open>Building an array from a list: cut or zero-fill to the array's length.\<close>

definition bytes4_of :: "byte list \<Rightarrow> bytes4" where
  "bytes4_of xs = Abs_bytes4 (take 4 xs @ replicate (4 - length xs) 0)"

definition bytes32_of :: "byte list \<Rightarrow> bytes32" where
  "bytes32_of xs = Abs_bytes32 (take 32 xs @ replicate (32 - length xs) 0)"

text \<open>
  The built-in \<^verbatim>\<open>copy(dst, src)\<close> overwrites the first \<open>min (len dst) (len src)\<close>
  elements of \<open>dst\<close> and leaves the rest; the result is the new content of \<open>dst\<close>.
\<close>

definition copy_bytes :: "byte list \<Rightarrow> byte list \<Rightarrow> byte list" where
  "copy_bytes dst src = take (length dst) src @ drop (length src) dst"

subsection \<open>Failures\<close>

text \<open>
  A call either returns a non-nil Go \<^verbatim>\<open>error\<close> (an opaque value; the model keeps
  its message) or panics at a slice expression out of range. Both unwind to the caller:
  no function of the file recovers from a panic or handles an error other than by
  returning it. A Go result \<^verbatim>\<open>(v, nil)\<close> is \<open>Inr v\<close>, a result
  \<^verbatim>\<open>(zero value, err)\<close> is \<open>Inl err\<close>.
\<close>

datatype error = ComputationError string | SliceBoundsPanic

subsection \<open>The records handed to the hashing engine\<close>

text \<open>
  Modelled from the spec: the message types \<^verbatim>\<open>pb.ForkData\<close> and
  \<^verbatim>\<open>p2ppb.SigningRoot\<close> of package proto/beacon/p2p/v1 are not in the source
  file. The spec gives them as ordered two-field records,
  \<open>{ currentVersion, genesisValidatorsRoot }\<close> and \<open>{ objectRoot, domain }\<close>; the
  source assigns a \<^verbatim>\<open>[]byte\<close> to each field.
\<close>

record ForkData =
  CurrentVersion :: slice
  GenesisValidatorsRoot :: slice

record SigningRoot =
  ObjectRoot :: slice
  Domain :: slice

text \<open>
  \<^verbatim>\<open>ssz.HashTreeRoot\<close> takes an \<^verbatim>\<open>interface{}\<close>: one of the two records above, or
  any other value (\<open>'a\<close>) a caller of \<^verbatim>\<open>ComputeSigningRoot\<close> supplies.
\<close>

datatype 'a ssz_object =
    ForkDataObj ForkData
  | SigningRootObj SigningRoot
  | OtherObj 'a

text \<open>
  Modelled from the spec: the order in which the engine reads a record's fields is that of
  the type's declaration, which is not in the source file; the spec gives both records as
  ordered, in the order above.
\<close>

fun ssz_fields :: "'a ssz_object \<Rightarrow> slice list" where
  "ssz_fields (ForkDataObj fd) = [CurrentVersion fd, GenesisValidatorsRoot fd]"
| "ssz_fields (SigningRootObj sr) = [ObjectRoot sr, Domain sr]"
| "ssz_fields (OtherObj x) = []"

text \<open>
  The hashing engine \<^verbatim>\<open>ssz.HashTreeRoot(val interface{}) ([32]byte, error)\<close>: external,
  a parameter of every operation.
\<close>

type_synonym 'a engine = "'a ssz_object \<Rightarrow> error + bytes32"

text \<open>
  Modelled from the spec: \<^verbatim>\<open>params.BeaconConfig()\<close> of package shared/params is not in
  the source file. The source reads its fields \<^verbatim>\<open>GenesisForkVersion\<close> (assigned to a
  \<^verbatim>\<open>[]byte\<close>) and \<^verbatim>\<open>ZeroHash\<close> (an array, sliced with \<^verbatim>\<open>[:]\<close>); the spec says
  the second is 32 zero bytes, which the theorems that need it assume of the
  configuration they are given.
\<close>

record BeaconChainConfig =
  GenesisForkVersion :: slice
  ZeroHash :: bytes32

subsection \<open>The operations\<close>

text \<open>
  \<^verbatim>\<open>func computeForkDataRoot(version []byte, root []byte) ([32]byte, error)\<close>:
  hash the record; on an error return the error, else the root.
\<close>

definition computeForkDataRoot :: "'a engine \<Rightarrow> slice \<Rightarrow> slice \<Rightarrow> error + bytes32" where
  "computeForkDataRoot htr version root =
     (case htr (ForkDataObj \<lparr>CurrentVersion = version, GenesisValidatorsRoot = root\<rparr>) of
        Inl err \<Rightarrow> Inl err
      | Inr r \<Rightarrow> Inr r)"

text \<open>
  \<^verbatim>\<open>func domain(domainType [DomainByteLength]byte, forkDataRoot []byte) []byte\<close>:
  \<^verbatim>\<open>b := []byte{}; b = append(b, domainType[:4]...); b = append(b, forkDataRoot[:28]...)\<close>.
  The slice expression \<^verbatim>\<open>forkDataRoot[:28]\<close> panics when the slice holds fewer than 28
  bytes (the slice is given by its bytes up to its capacity; at the one call site it is
  a whole array, of length and capacity 32).
\<close>

definition domain :: "bytes4 \<Rightarrow> byte list \<Rightarrow> error + byte list" where
  "domain domainType forkDataRoot =
     (let b = [];
          b = b @ take 4 (bytes4_list domainType)
      in if 28 \<le> length forkDataRoot
         then Inr (b @ take 28 forkDataRoot)
         else Inl SliceBoundsPanic)"

text \<open>
  \<^verbatim>\<open>func ComputeDomain(domainType [DomainByteLength]byte, forkVersion []byte,
  genesisValidatorsRoot []byte) ([]byte, error)\<close>. The two \<^verbatim>\<open>nil\<close> tests replace an
  absent argument by the configuration's value. The local array \<^verbatim>\<open>forkBytes\<close> is
  filled by \<^verbatim>\<open>copy(forkBytes[:], forkVersion)\<close> and not read afterwards:
  \<^verbatim>\<open>computeForkDataRoot\<close> is called with \<^verbatim>\<open>forkVersion\<close>.
\<close>

definition forkBytes_of :: "slice \<Rightarrow> byte list" where
  "forkBytes_of forkVersion =
     copy_bytes (replicate ForkVersionByteLength 0) (slice_bytes forkVersion)"

definition ComputeDomain ::
  "'a engine \<Rightarrow> BeaconChainConfig \<Rightarrow> bytes4 \<Rightarrow> slice \<Rightarrow> slice \<Rightarrow> error + byte list" where
  "ComputeDomain htr cfg domainType forkVersion genesisValidatorsRoot =
     (let forkVersion =
            (if forkVersion = None then GenesisForkVersion cfg else forkVersion);
          genesisValidatorsRoot =
            (if genesisValidatorsRoot = None then Some (bytes32_list (ZeroHash cfg))
             else genesisValidatorsRoot);
          forkBytes = forkBytes_of forkVersion
      in case computeForkDataRoot htr forkVersion genesisValidatorsRoot of
           Inl err \<Rightarrow> Inl err
         | Inr forkDataRoot \<Rightarrow> domain domainType (bytes32_list forkDataRoot))"

text \<open>
  \<^verbatim>\<open>func ComputeSigningRoot(object interface{}, domain []byte) ([32]byte, error)\<close>:
  hash the object; on an error return it; else hash the container of the object's root
  (\<^verbatim>\<open>objRoot[:]\<close>, a non-nil slice of 32 bytes) and the domain, and return what the
  engine returns. The parameter \<^verbatim>\<open>domain\<close> is written \<open>domain'\<close>, the name
  \<open>domain\<close> being the helper function's.
\<close>

definition ComputeSigningRoot :: "'a engine \<Rightarrow> 'a ssz_object \<Rightarrow> slice \<Rightarrow> error + bytes32" where
  "ComputeSigningRoot htr object domain' =
     (case htr object of
        Inl err \<Rightarrow> Inl err
      | Inr objRoot \<Rightarrow>
          htr (SigningRootObj \<lparr>ObjectRoot = Some (bytes32_list objRoot), Domain = domain'\<rparr>))"

text \<open>
  The same function with the result of its first statement,
  \<^verbatim>\<open>objRoot, err := ssz.HashTreeRoot(object)\<close>, returned beside its result: the pair
  of what the first call of the engine gave and what the function returns.
\<close>

definition ComputeSigningRoot_steps ::
  "'a engine \<Rightarrow> 'a ssz_object \<Rightarrow> slice \<Rightarrow> (error + bytes32) \<times> (error + bytes32)" where
  "ComputeSigningRoot_steps htr object domain' =
     (let objRootErr = htr object
      in case objRootErr of
           Inl err \<Rightarrow> (objRootErr, Inl err)
         | Inr objRoot \<Rightarrow>
             (objRootErr,
              htr (SigningRootObj \<lparr>ObjectRoot = Some (bytes32_list objRoot), Domain = domain'\<rparr>)))"

subsection \<open>The operations over an engine and a configuration that may answer differently\<close>

text \<open>
  To say what the operations add to the determinism of their collaborators, the engine
  and the configuration provider are relations here: \<open>E obj res\<close> when a call
  \<^verbatim>\<open>ssz.HashTreeRoot(obj)\<close> may give \<open>res\<close>, \<open>C cfg\<close> when a call
  \<^verbatim>\<open>params.BeaconConfig()\<close> may give \<open>cfg\<close>. Each rule is one path through the
  source function; each call of a collaborator is one premise. The operations have no
  state of their own: nothing but the arguments and the collaborators' answers occurs
  in a rule.
\<close>

type_synonym 'a engine_rel = "'a ssz_object \<Rightarrow> error + bytes32 \<Rightarrow> bool"

type_synonym config_rel = "BeaconChainConfig \<Rightarrow> bool"

definition deterministic :: "('x \<Rightarrow> 'y \<Rightarrow> bool) \<Rightarrow> bool" where
  "deterministic R = (\<forall>x a b. R x a \<longrightarrow> R x b \<longrightarrow> a = b)"

definition single_valued_config :: "config_rel \<Rightarrow> bool" where
  "single_valued_config C = (\<forall>a b. C a \<longrightarrow> C b \<longrightarrow> a = b)"

inductive computeForkDataRoot_rel ::
  "'a engine_rel \<Rightarrow> slice \<Rightarrow> slice \<Rightarrow> error + bytes32 \<Rightarrow> bool"
  for E :: "'a engine_rel" and version root :: slice where
  cfdr_err:
    "E (ForkDataObj \<lparr>CurrentVersion = version, GenesisValidatorsRoot = root\<rparr>) (Inl err)
     \<Longrightarrow> computeForkDataRoot_rel E version root (Inl err)"
| cfdr_ok:
    "E (ForkDataObj \<lparr>CurrentVersion = version, GenesisValidatorsRoot = root\<rparr>) (Inr r)
     \<Longrightarrow> computeForkDataRoot_rel E version root (Inr r)"

text \<open>
  \<^verbatim>\<open>if forkVersion == nil { forkVersion = params.BeaconConfig().GenesisForkVersion }\<close>
  and
  \<^verbatim>\<open>if genesisValidatorsRoot == nil { genesisValidatorsRoot = params.BeaconConfig().ZeroHash[:] }\<close>:
  the configuration is asked once in each statement, and only when the argument is nil.
\<close>

inductive defaultForkVersion_rel :: "config_rel \<Rightarrow> slice \<Rightarrow> slice \<Rightarrow> bool"
  for C :: config_rel where
  fv_nil: "C cfg \<Longrightarrow> defaultForkVersion_rel C None (GenesisForkVersion cfg)"
| fv_given: "defaultForkVersion_rel C (Some v) (Some v)"

inductive defaultGenesisRoot_rel :: "config_rel \<Rightarrow> slice \<Rightarrow> slice \<Rightarrow> bool"
  for C :: config_rel where
  gvr_nil: "C cfg \<Longrightarrow> defaultGenesisRoot_rel C None (Some (bytes32_list (ZeroHash cfg)))"
| gvr_given: "defaultGenesisRoot_rel C (Some v) (Some v)"

inductive ComputeDomain_rel ::
  "'a engine_rel \<Rightarrow> config_rel \<Rightarrow> bytes4 \<Rightarrow> slice \<Rightarrow> slice \<Rightarrow> error + byte list \<Rightarrow> bool"
  for E :: "'a engine_rel" and C :: config_rel and domainType :: bytes4 where
  cd_err:
    "defaultForkVersion_rel C forkVersion fv \<Longrightarrow>
     defaultGenesisRoot_rel C genesisValidatorsRoot gvr \<Longrightarrow>
     computeForkDataRoot_rel E fv gvr (Inl err) \<Longrightarrow>
     ComputeDomain_rel E C domainType forkVersion genesisValidatorsRoot (Inl err)"
| cd_ok:
    "defaultForkVersion_rel C forkVersion fv \<Longrightarrow>
     defaultGenesisRoot_rel C genesisValidatorsRoot gvr \<Longrightarrow>
     computeForkDataRoot_rel E fv gvr (Inr forkDataRoot) \<Longrightarrow>
     ComputeDomain_rel E C domainType forkVersion genesisValidatorsRoot
       (domain domainType (bytes32_list forkDataRoot))"

inductive ComputeSigningRoot_rel ::
  "'a engine_rel \<Rightarrow> 'a ssz_object \<Rightarrow> slice \<Rightarrow> error + bytes32 \<Rightarrow> bool"
  for E :: "'a engine_rel" and object :: "'a ssz_object" and domain' :: slice where
  csr_err: "E object (Inl err) \<Longrightarrow> ComputeSigningRoot_rel E object domain' (Inl err)"
| csr_ok:
    "E object (Inr objRoot) \<Longrightarrow>
     E (SigningRootObj \<lparr>ObjectRoot = Some (bytes32_list objRoot), Domain = domain'\<rparr>) res \<Longrightarrow>
     ComputeSigningRoot_rel E object domain' res"

subsection \<open>A stand-in engine and configuration for concrete evaluation\<close>

text \<open>
  The real engine is external. To run the model on concrete inputs, \<open>sample_htr\<close> is an
  engine that is no hash at all: it returns the bytes of the record's fields, cut or
  zero-filled to 32 bytes, so that what the operations hand to it stays visible in the
  result. It rejects a signing container with an empty domain and the object
  \<open>OtherObj 0\<close>, to exercise the error paths.
\<close>

fun sample_htr :: "nat ssz_object \<Rightarrow> error + bytes32" where
  "sample_htr (ForkDataObj fd) =
     Inr (bytes32_of (slice_bytes (CurrentVersion fd) @ slice_bytes (GenesisValidatorsRoot fd)))"
| "sample_htr (SigningRootObj sr) =
     (if length (slice_bytes (Domain sr)) = 0 then Inl (ComputationError ''empty domain'')
      else Inr (bytes32_of (slice_bytes (Domain sr) @ slice_bytes (ObjectRoot sr))))"
| "sample_htr (OtherObj n) =
     (if n = 0 then Inl (ComputationError ''unsupported object'')
      else Inr (bytes32_of [of_nat n]))"

definition sample_cfg :: BeaconChainConfig where
  "sample_cfg = \<lparr>GenesisForkVersion = Some [0, 0, 16, 32], ZeroHash = bytes32_of []\<rparr>"

section \<open>Basic facts\<close>

lemma bytes32_list_length: "length (bytes32_list r) = 32"
  using bytes32_list [of r] by simp

lemma bytes4_list_length: "length (bytes4_list t) = 4"
  using bytes4_list [of t] by simp

lemma bytes32_list_of:
  "bytes32_list (bytes32_of xs) = take 32 xs @ replicate (32 - length xs) 0"
  by (simp add: bytes32_of_def Abs_bytes32_inverse)

lemma bytes4_list_of:
  "bytes4_list (bytes4_of xs) = take 4 xs @ replicate (4 - length xs) 0"
  by (simp add: bytes4_of_def Abs_bytes4_inverse)

lemma domain_array:
  "domain t (bytes32_list r) = Inr (bytes4_list t @ take 28 (bytes32_list r))"
  by (simp add: domain_def bytes32_list_length bytes4_list_length)

lemma ComputeDomain_unfold:
  "ComputeDomain htr cfg t fv gvr =
     (case computeForkDataRoot htr (if fv = None then GenesisForkVersion cfg else fv)
             (if gvr = None then Some (bytes32_list (ZeroHash cfg)) else gvr) of
        Inl err \<Rightarrow> Inl err
      | Inr r \<Rightarrow> Inr (bytes4_list t @ take 28 (bytes32_list r)))"
  by (simp add: ComputeDomain_def Let_def domain_array cong: sum.case_cong)

lemma computeForkDataRoot_rel_graph:
  "computeForkDataRoot_rel (\<lambda>obj res. res = htr obj) version root res
     \<longleftrightarrow> res = computeForkDataRoot htr version root"
  by (cases "htr (ForkDataObj \<lparr>CurrentVersion = version, GenesisValidatorsRoot = root\<rparr>)")
     (auto simp: computeForkDataRoot_rel.simps computeForkDataRoot_def)

lemma defaultForkVersion_rel_graph:
  "defaultForkVersion_rel (\<lambda>c. c = cfg) fv fv'
     \<longleftrightarrow> fv' = (if fv = None then GenesisForkVersion cfg else fv)"
  by (auto simp: defaultForkVersion_rel.simps)

lemma defaultGenesisRoot_rel_graph:
  "defaultGenesisRoot_rel (\<lambda>c. c = cfg) gvr gvr'
     \<longleftrightarrow> gvr' = (if gvr = None then Some (bytes32_list (ZeroHash cfg)) else gvr)"
  by (auto simp: defaultGenesisRoot_rel.simps)

lemma ComputeDomain_rel_graph:
  "ComputeDomain_rel (\<lambda>obj res. res = htr obj) (\<lambda>c. c = cfg) t fv gvr res
     \<longleftrightarrow> res = ComputeDomain htr cfg t fv gvr"
  by (simp add: ComputeDomain_rel.simps computeForkDataRoot_rel_graph
        defaultForkVersion_rel_graph defaultGenesisRoot_rel_graph ComputeDomain_def Let_def
        split: sum.splits)

lemma ComputeSigningRoot_rel_graph:
  "ComputeSigningRoot_rel (\<lambda>obj res. res = htr obj) object d res
     \<longleftrightarrow> res = ComputeSigningRoot htr object d"
  by (cases "htr object") (auto simp: ComputeSigningRoot_rel.simps ComputeSigningRoot_def)

lemma bytes32_of_eq_iff:
  "bytes32_of xs = bytes32_of ys
     \<longleftrightarrow> take 32 xs @ replicate (32 - length xs) 0
         = take 32 ys @ replicate (32 - length ys) 0"
  by (simp add: bytes32_of_def Abs_bytes32_inject)

lemma forkBytes_of_Some:
  "forkBytes_of (Some v) = take 4 v @ replicate (4 - length v) 0"
  by (simp add: forkBytes_of_def copy_bytes_def slice_bytes_def ForkVersionByteLength_def)

lemma forkBytes_of_length: "length (forkBytes_of fv) = 4"
  by (simp add: forkBytes_of_def copy_bytes_def ForkVersionByteLength_def)

lemma computeForkDataRoot_rel_det:
  assumes "deterministic E"
    and "computeForkDataRoot_rel E version root r1"
    and "computeForkDataRoot_rel E version root r2"
  shows "r1 = r2"
  using assms unfolding deterministic_def
  by (auto elim!: computeForkDataRoot_rel.cases)

lemma defaultForkVersion_rel_det:
  assumes "single_valued_config C"
    and "defaultForkVersion_rel C fv a" and "defaultForkVersion_rel C fv b"
  shows "a = b"
  using assms unfolding single_valued_config_def
  by (auto elim!: defaultForkVersion_rel.cases)

lemma defaultGenesisRoot_rel_det:
  assumes "single_valued_config C"
    and "defaultGenesisRoot_rel C gvr a" and "defaultGenesisRoot_rel C gvr b"
  shows "a = b"
  using assms unfolding single_valued_config_def
  by (auto elim!: defaultGenesisRoot_rel.cases)

lemma ComputeDomain_rel_det:
  assumes E: "deterministic E" and C: "single_valued_config C"
    and 1: "ComputeDomain_rel E C t fv gvr d1"
    and 2: "ComputeDomain_rel E C t fv gvr d2"
  shows "d1 = d2"
proof -
  from 1 obtain fv1 gvr1 x1 where
    a1: "defaultForkVersion_rel C fv fv1" "defaultGenesisRoot_rel C gvr gvr1"
        "computeForkDataRoot_rel E fv1 gvr1 x1"
    and d1: "d1 = (case x1 of Inl err \<Rightarrow> Inl err | Inr r \<Rightarrow> domain t (bytes32_list r))"
    by (auto elim!: ComputeDomain_rel.cases)
  from 2 obtain fv2 gvr2 x2 where
    a2: "defaultForkVersion_rel C fv fv2" "defaultGenesisRoot_rel C gvr gvr2"
        "computeForkDataRoot_rel E fv2 gvr2 x2"
    and d2: "d2 = (case x2 of Inl err \<Rightarrow> Inl err | Inr r \<Rightarrow> domain t (bytes32_list r))"
    by (auto elim!: ComputeDomain_rel.cases)
  have "fv1 = fv2" using C a1(1) a2(1) by (rule defaultForkVersion_rel_det)
  moreover have "gvr1 = gvr2" using C a1(2) a2(2) by (rule defaultGenesisRoot_rel_det)
  ultimately have "x1 = x2" using E a1(3) a2(3) by (auto intro: computeForkDataRoot_rel_det)
  with d1 d2 show ?thesis by simp
qed

lemma ComputeSigningRoot_rel_det:
  assumes "deterministic E"
    and "ComputeSigningRoot_rel E object d s1"
    and "ComputeSigningRoot_rel E object d s2"
  shows "s1 = s2"
proof -
  from assms(1) have det: "\<And>x a b. E x a \<Longrightarrow> E x b \<Longrightarrow> a = b"
    unfolding deterministic_def by blast
  from assms(2) show ?thesis
  proof cases
    case (csr_err err)
    from assms(3) show ?thesis
    proof cases
      case (csr_err err')
      with \<open>E object (Inl err)\<close> \<open>s1 = Inl err\<close> show ?thesis by (auto dest: det)
    next
      case (csr_ok objRoot')
      with \<open>E object (Inl err)\<close> show ?thesis by (auto dest: det)
    qed
  next
    case (csr_ok objRoot)
    from assms(3) show ?thesis
    proof cases
      case (csr_err err')
      with csr_ok(1) show ?thesis by (auto dest: det)
    next
      case (csr_ok objRoot')
      with \<open>E object (Inr objRoot)\<close> have "objRoot' = objRoot" by (auto dest: det)
      with csr_ok \<open>E (SigningRootObj \<lparr>ObjectRoot = Some (bytes32_list objRoot),
                                       Domain = d\<rparr>) s1\<close>
      show ?thesis by (auto dest: det)
    qed
  qed
qed

section \<open>The domain\<close>

text \<open>
  Claim C1. Whenever the engine gives a fork-data root for the fork version and the
  genesis validators root after the defaults are put in, \<open>ComputeDomain\<close> returns a
  domain \<open>d\<close> of exactly 32 bytes: bytes 0 to 3 are the domain type, bytes 4 to 31 are
  the first 28 bytes of that fork-data root. The root's last 4 bytes are not in \<open>d\<close>:
  the root is the 28 bytes of \<open>d\<close> followed by 4 more. In particular the slice
  expression of \<open>domain\<close> never panics here.
\<close>

theorem ComputeDomain_shape:
  assumes "computeForkDataRoot htr
             (if forkVersion = None then GenesisForkVersion cfg else forkVersion)
             (if genesisValidatorsRoot = None then Some (bytes32_list (ZeroHash cfg))
              else genesisValidatorsRoot) = Inr forkDataRoot"
  shows "\<exists>d. ComputeDomain htr cfg domainType forkVersion genesisValidatorsRoot = Inr d
           \<and> length d = 32
           \<and> take 4 d = bytes4_list domainType
           \<and> drop 4 d = take 28 (bytes32_list forkDataRoot)
           \<and> bytes32_list forkDataRoot = drop 4 d @ drop 28 (bytes32_list forkDataRoot)
           \<and> length (drop 28 (bytes32_list forkDataRoot)) = 4"
  using assms
  by (simp add: ComputeDomain_unfold bytes32_list_length bytes4_list_length)

theorem ComputeDomain_shape_witness:
  "computeForkDataRoot sample_htr (Some [0, 0, 0, 1]) (Some (replicate 32 7))
     = Inr (bytes32_of ([0, 0, 0, 1] @ replicate 32 7))
   \<and> (\<exists>d. ComputeDomain sample_htr sample_cfg (bytes4_of [1, 0, 0, 0]) (Some [0, 0, 0, 1])
              (Some (replicate 32 7)) = Inr d
          \<and> length d = 32
          \<and> take 4 d = [1, 0, 0, 0]
          \<and> drop 4 d = [0, 0, 0, 1] @ replicate 24 7)"
proof -
  have h: "computeForkDataRoot sample_htr
             (if Some [0, 0, 0, 1] = None then GenesisForkVersion sample_cfg
              else Some [0, 0, 0, 1])
             (if Some (replicate 32 7) = None then Some (bytes32_list (ZeroHash sample_cfg))
              else Some (replicate 32 7)) = Inr (bytes32_of ([0, 0, 0, 1] @ replicate 32 7))"
    by (simp add: computeForkDataRoot_def slice_bytes_def)
  from ComputeDomain_shape [OF h, of "bytes4_of [1, 0, 0, 0]"] h
  show ?thesis
    by (auto simp: bytes32_list_of bytes4_list_of)
qed

text \<open>
  Claim C3. With both optional arguments nil, \<open>ComputeDomain\<close> returns what it returns
  for the configuration's \<open>GenesisForkVersion\<close> and 32 zero bytes given explicitly,
  for a configuration whose \<open>ZeroHash\<close> is 32 zero bytes (as the spec says of the
  configuration provider). The defaults are put in before hashing: the record the engine
  receives already holds them.
\<close>

theorem ComputeDomain_defaults:
  assumes "bytes32_list (ZeroHash cfg) = replicate 32 0"
  shows "ComputeDomain htr cfg t None None
           = ComputeDomain htr cfg t (GenesisForkVersion cfg) (Some (replicate 32 0))
         \<and> ComputeDomain htr cfg t None None
           = (case htr (ForkDataObj \<lparr>CurrentVersion = GenesisForkVersion cfg,
                                     GenesisValidatorsRoot = Some (replicate 32 0)\<rparr>) of
                Inl err \<Rightarrow> Inl err
              | Inr r \<Rightarrow> Inr (bytes4_list t @ take 28 (bytes32_list r)))"
  using assms
  by (simp add: ComputeDomain_unfold computeForkDataRoot_def split: sum.splits)

theorem ComputeDomain_defaults_witness:
  "bytes32_list (ZeroHash sample_cfg) = replicate 32 0
   \<and> ComputeDomain sample_htr sample_cfg (bytes4_of [1, 0, 0, 0]) None None
     = ComputeDomain sample_htr sample_cfg (bytes4_of [1, 0, 0, 0])
         (Some [0, 0, 16, 32]) (Some (replicate 32 0))
   \<and> ComputeDomain sample_htr sample_cfg (bytes4_of [1, 0, 0, 0]) None None
     = Inr ([1, 0, 0, 0, 0, 0, 16, 32] @ replicate 24 0)"
proof -
  have h: "bytes32_list (ZeroHash sample_cfg) = replicate 32 0"
    by (simp add: sample_cfg_def bytes32_list_of)
  from ComputeDomain_defaults [OF h, of sample_htr "bytes4_of [1, 0, 0, 0]"] h
  show ?thesis
    by (simp add: sample_cfg_def slice_bytes_def bytes32_list_of bytes4_list_of
          ComputeDomain_unfold computeForkDataRoot_def)
qed

text \<open>
  Claim C7. A non-nil fork version whose length is not 4 reaches the engine as it is:
  the record \<open>ComputeDomain\<close> has hashed holds the caller's bytes, neither cut to 4
  bytes nor zero-filled. The local array \<open>forkBytes\<close>, which holds the first 4 bytes
  zero-filled, differs from it and has no part in the result.
\<close>

theorem ComputeDomain_raw_forkVersion:
  assumes "length v \<noteq> 4"
  shows "ComputeDomain htr cfg t (Some v) gvr
           = (case htr (ForkDataObj
                         \<lparr>CurrentVersion = Some v,
                          GenesisValidatorsRoot =
                            (if gvr = None then Some (bytes32_list (ZeroHash cfg)) else gvr)\<rparr>) of
                Inl err \<Rightarrow> Inl err
              | Inr r \<Rightarrow> Inr (bytes4_list t @ take 28 (bytes32_list r)))
         \<and> forkBytes_of (Some v) = take 4 v @ replicate (4 - length v) 0
         \<and> length (forkBytes_of (Some v)) = 4
         \<and> forkBytes_of (Some v) \<noteq> v"
proof -
  have handed: "ComputeDomain htr cfg t (Some v) gvr
      = (case htr (ForkDataObj
                    \<lparr>CurrentVersion = Some v,
                     GenesisValidatorsRoot =
                       (if gvr = None then Some (bytes32_list (ZeroHash cfg)) else gvr)\<rparr>) of
           Inl err \<Rightarrow> Inl err
         | Inr r \<Rightarrow> Inr (bytes4_list t @ take 28 (bytes32_list r)))"
    by (simp add: ComputeDomain_unfold computeForkDataRoot_def split: sum.splits)
  have differs: "forkBytes_of (Some v) \<noteq> v"
    using assms forkBytes_of_length [of "Some v"] by auto
  from handed differs forkBytes_of_Some [of v] forkBytes_of_length [of "Some v"]
  show ?thesis by blast
qed

theorem ComputeDomain_raw_forkVersion_witness:
  "length [1, 2, 3, 4, 5 :: byte] \<noteq> 4
   \<and> ComputeDomain sample_htr sample_cfg (bytes4_of [1, 0, 0, 0]) (Some [1, 2, 3, 4, 5]) (Some [9])
       = Inr ([1, 0, 0, 0, 1, 2, 3, 4, 5, 9] @ replicate 22 0)
   \<and> forkBytes_of (Some [1, 2, 3, 4, 5]) = [1, 2, 3, 4]
   \<and> ComputeDomain sample_htr sample_cfg (bytes4_of [1, 0, 0, 0]) (Some [1, 2, 3, 4]) (Some [9])
       = Inr ([1, 0, 0, 0, 1, 2, 3, 4, 9] @ replicate 23 0)
   \<and> length [7 :: byte] \<noteq> 4
   \<and> ComputeDomain sample_htr sample_cfg (bytes4_of [1, 0, 0, 0]) (Some [7]) (Some [9])
       = Inr ([1, 0, 0, 0, 7, 9] @ replicate 26 0)
   \<and> forkBytes_of (Some [7]) = [7] @ replicate 3 0"
proof -
  have h5: "length [1, 2, 3, 4, 5 :: byte] \<noteq> 4" and h1: "length [7 :: byte] \<noteq> 4"
    by simp_all
  from ComputeDomain_raw_forkVersion
         [OF h5, where htr = sample_htr and cfg = sample_cfg and t = "bytes4_of [1, 0, 0, 0]"
            and gvr = "Some [9]"]
       ComputeDomain_raw_forkVersion
         [OF h1, where htr = sample_htr and cfg = sample_cfg and t = "bytes4_of [1, 0, 0, 0]"
            and gvr = "Some [9]"]
  show ?thesis
    by (simp add: slice_bytes_def bytes32_list_of bytes4_list_of ComputeDomain_unfold
          computeForkDataRoot_def)
qed

section \<open>The fork-data root\<close>

text \<open>
  Claim C4. \<open>computeForkDataRoot\<close> hands the engine the record whose fields are, in
  this order, the version and the root it was given, and returns the engine's answer as
  it is: the 32-byte digest when the engine gives one, the engine's failure when it
  fails.
\<close>

theorem computeForkDataRoot_engine:
  "computeForkDataRoot htr version root
     = htr (ForkDataObj \<lparr>CurrentVersion = version, GenesisValidatorsRoot = root\<rparr>)
   \<and> ssz_fields (ForkDataObj \<lparr>CurrentVersion = version,
                               GenesisValidatorsRoot = root\<rparr> :: 'a ssz_object)
       = [version, root]
   \<and> (case computeForkDataRoot htr version root of
         Inl err \<Rightarrow>
           htr (ForkDataObj \<lparr>CurrentVersion = version, GenesisValidatorsRoot = root\<rparr>) = Inl err
       | Inr r \<Rightarrow>
           htr (ForkDataObj \<lparr>CurrentVersion = version, GenesisValidatorsRoot = root\<rparr>) = Inr r
           \<and> length (bytes32_list r) = 32)"
  by (simp add: computeForkDataRoot_def bytes32_list_length split: sum.splits)

theorem computeForkDataRoot_engine_witness:
  "computeForkDataRoot sample_htr (Some [0, 0, 0, 1]) (Some [9])
     = sample_htr (ForkDataObj \<lparr>CurrentVersion = Some [0, 0, 0, 1],
                                GenesisValidatorsRoot = Some [9]\<rparr>)
   \<and> computeForkDataRoot sample_htr (Some [0, 0, 0, 1]) (Some [9])
     = Inr (bytes32_of [0, 0, 0, 1, 9])
   \<and> computeForkDataRoot (\<lambda>_ :: nat ssz_object. Inl (ComputationError ''no schema''))
         (Some [0, 0, 0, 1]) (Some [9])
     = Inl (ComputationError ''no schema'')"
  using computeForkDataRoot_engine [of sample_htr "Some [0, 0, 0, 1]" "Some [9]"]
        computeForkDataRoot_engine
          [of "\<lambda>_ :: nat ssz_object. Inl (ComputationError ''no schema'')"
              "Some [0, 0, 0, 1]" "Some [9]"]
  by (simp add: slice_bytes_def)

section \<open>The signing root\<close>

text \<open>
  Claim C2. \<open>ComputeSigningRoot\<close> returns the engine's answer for the two-field
  record whose first field is the object's root (the 32 bytes the engine gave for the
  object) and whose second field is the domain as supplied; when the engine fails on
  the object there is no object root, and that failure is the result.
\<close>

theorem ComputeSigningRoot_container:
  "(case htr object of
      Inl err \<Rightarrow> ComputeSigningRoot htr object domain' = Inl err
    | Inr objRoot \<Rightarrow>
        ComputeSigningRoot htr object domain'
          = htr (SigningRootObj \<lparr>ObjectRoot = Some (bytes32_list objRoot), Domain = domain'\<rparr>)
        \<and> ssz_fields (SigningRootObj \<lparr>ObjectRoot = Some (bytes32_list objRoot),
                                       Domain = domain'\<rparr> :: 'a ssz_object)
            = [Some (bytes32_list objRoot), domain']
        \<and> length (bytes32_list objRoot) = 32)"
  by (simp add: ComputeSigningRoot_def bytes32_list_length split: sum.splits)

theorem ComputeSigningRoot_container_witness:
  "ComputeSigningRoot sample_htr (OtherObj 3) (Some [5, 6])
     = sample_htr (SigningRootObj \<lparr>ObjectRoot = Some (3 # replicate 31 0),
                                   Domain = Some [5, 6]\<rparr>)
   \<and> ComputeSigningRoot sample_htr (OtherObj 3) (Some [5, 6])
     = Inr (bytes32_of [5, 6, 3])"
  using ComputeSigningRoot_container [of sample_htr "OtherObj 3" "Some [5, 6]"]
  by (simp add: bytes32_list_of slice_bytes_def bytes32_of_eq_iff)

text \<open>
  Claim C5. When the engine fails on the object, \<open>ComputeSigningRoot\<close> returns that
  very failure and no root. The container is never hashed on this path: the result is
  the same for any engine that fails in the same way on the object, whatever it does on
  containers.
\<close>

theorem ComputeSigningRoot_error:
  assumes "htr object = Inl err"
  shows "ComputeSigningRoot htr object domain' = Inl err
         \<and> (\<forall>r. ComputeSigningRoot htr object domain' \<noteq> Inr r)
         \<and> (\<forall>htr'. htr' object = htr object \<longrightarrow>
                ComputeSigningRoot htr' object domain' = Inl err)
         \<and> ComputeSigningRoot_steps htr object domain' = (Inl err, Inl err)"
  using assms by (simp add: ComputeSigningRoot_def ComputeSigningRoot_steps_def Let_def)

theorem ComputeSigningRoot_error_witness:
  "sample_htr (OtherObj 0) = Inl (ComputationError ''unsupported object'')
   \<and> ComputeSigningRoot sample_htr (OtherObj 0) (Some [5, 6])
     = Inl (ComputationError ''unsupported object'')"
proof -
  have h: "sample_htr (OtherObj 0) = Inl (ComputationError ''unsupported object'')"
    by simp
  from ComputeSigningRoot_error
         [where htr = sample_htr and object = "OtherObj 0" and domain' = "Some [5, 6]", OF h] h
  show ?thesis by simp
qed

text \<open>
  Claim C8. \<open>ComputeSigningRoot\<close> has no check of its own on the domain: it fails
  exactly when the engine fails, on the object or on the container that holds the
  domain as supplied, and with the engine's failure. With an engine that never fails it
  never fails, whatever the domain's length.
\<close>

theorem ComputeSigningRoot_domain_unchecked:
  "(ComputeSigningRoot htr object domain' = Inl err
      \<longleftrightarrow> htr object = Inl err
          \<or> (\<exists>objRoot. htr object = Inr objRoot
                \<and> htr (SigningRootObj \<lparr>ObjectRoot = Some (bytes32_list objRoot),
                                        Domain = domain'\<rparr>) = Inl err))
   \<and> ((\<forall>obj e. htr obj \<noteq> Inl e) \<longrightarrow> (\<forall>e. ComputeSigningRoot htr object domain' \<noteq> Inl e))"
  by (cases "htr object") (auto simp: ComputeSigningRoot_def)

theorem ComputeSigningRoot_domain_unchecked_witness:
  "ComputeSigningRoot sample_htr (OtherObj 3) (Some []) = Inl (ComputationError ''empty domain'')
   \<and> sample_htr (OtherObj 3) = Inr (bytes32_of [3])
   \<and> sample_htr (SigningRootObj \<lparr>ObjectRoot = Some (bytes32_list (bytes32_of [3])),
                                  Domain = Some []\<rparr>) = Inl (ComputationError ''empty domain'')
   \<and> (\<forall>obj e. (\<lambda>_ :: nat ssz_object. Inr (bytes32_of [])) obj \<noteq> Inl e)
   \<and> (\<forall>e. ComputeSigningRoot (\<lambda>_ :: nat ssz_object. Inr (bytes32_of [])) (OtherObj 3) (Some [1, 2, 3])
            \<noteq> Inl e)"
  using ComputeSigningRoot_domain_unchecked
          [of sample_htr "OtherObj 3" "Some []" "ComputationError ''empty domain''"]
        ComputeSigningRoot_domain_unchecked
          [of "\<lambda>_ :: nat ssz_object. Inr (bytes32_of [])" "OtherObj 3" "Some [1, 2, 3]"]
  by (simp add: slice_bytes_def)

text \<open>
  Claim C9. The object root computed by the first statement of
  \<open>ComputeSigningRoot\<close> is the engine's answer for the object: it is the same for any
  two domains. The second component of \<open>ComputeSigningRoot_steps\<close> is the function's
  result, which may differ with the domain.
\<close>

theorem objectRoot_independent_of_domain:
  "fst (ComputeSigningRoot_steps htr object domain1)
     = fst (ComputeSigningRoot_steps htr object domain2)
   \<and> fst (ComputeSigningRoot_steps htr object domain1) = htr object
   \<and> snd (ComputeSigningRoot_steps htr object domain1) = ComputeSigningRoot htr object domain1
   \<and> snd (ComputeSigningRoot_steps htr object domain2) = ComputeSigningRoot htr object domain2"
  by (simp add: ComputeSigningRoot_steps_def ComputeSigningRoot_def Let_def split: sum.splits)

theorem objectRoot_independent_of_domain_witness:
  "fst (ComputeSigningRoot_steps sample_htr (OtherObj 3) (Some [5]))
     = fst (ComputeSigningRoot_steps sample_htr (OtherObj 3) (Some [6]))
   \<and> fst (ComputeSigningRoot_steps sample_htr (OtherObj 3) (Some [5])) = Inr (bytes32_of [3])
   \<and> ComputeSigningRoot sample_htr (OtherObj 3) (Some [5]) = Inr (bytes32_of [5, 3])
   \<and> ComputeSigningRoot sample_htr (OtherObj 3) (Some [6]) = Inr (bytes32_of [6, 3])
   \<and> ComputeSigningRoot sample_htr (OtherObj 3) (Some [5])
       \<noteq> ComputeSigningRoot sample_htr (OtherObj 3) (Some [6])"
  using objectRoot_independent_of_domain [of sample_htr "OtherObj 3" "Some [5]" "Some [6]"]
  by (auto simp: ComputeSigningRoot_def slice_bytes_def bytes32_list_of bytes32_of_eq_iff)

section \<open>Sized and unsized parameters\<close>

text \<open>
  Claim C6, as amended. Of the fixed-size inputs only the domain type has a sized type:
  a \<open>bytes4\<close> always holds 4 bytes. The version and the root of
  \<open>computeForkDataRoot\<close> are slices of any length, handed to the engine as supplied
  with no length check; so is a non-nil genesis validators root given to
  \<open>ComputeDomain\<close>.
\<close>

theorem only_domainType_is_sized:
  "length (bytes4_list domainType) = 4
   \<and> computeForkDataRoot htr version root
       = htr (ForkDataObj \<lparr>CurrentVersion = version, GenesisValidatorsRoot = root\<rparr>)
   \<and> (\<exists>v. ComputeDomain htr cfg domainType forkVersion (Some gvr)
             = (case htr (ForkDataObj \<lparr>CurrentVersion = v,
                                       GenesisValidatorsRoot = Some gvr\<rparr>) of
                  Inl err \<Rightarrow> Inl err
                | Inr r \<Rightarrow> Inr (bytes4_list domainType @ take 28 (bytes32_list r))))"
proof -
  have "computeForkDataRoot htr version root
          = htr (ForkDataObj \<lparr>CurrentVersion = version, GenesisValidatorsRoot = root\<rparr>)"
    by (simp add: computeForkDataRoot_def split: sum.splits)
  moreover have "ComputeDomain htr cfg domainType forkVersion (Some gvr)
      = (case htr (ForkDataObj
                    \<lparr>CurrentVersion = (if forkVersion = None then GenesisForkVersion cfg
                                        else forkVersion),
                     GenesisValidatorsRoot = Some gvr\<rparr>) of
           Inl err \<Rightarrow> Inl err
         | Inr r \<Rightarrow> Inr (bytes4_list domainType @ take 28 (bytes32_list r)))"
    by (simp add: ComputeDomain_unfold computeForkDataRoot_def split: sum.splits)
  ultimately show ?thesis
    using bytes4_list_length [of domainType] by blast
qed

text \<open>
  The claim as the spec states it fails: a fork version of 5 bytes and a genesis
  validators root of 1 byte are values of the parameters' types, and the operations
  accept them and hash them.
\<close>

theorem wrong_length_inputs_accepted:
  "length [1, 2, 3, 4, 5 :: byte] \<noteq> 4 \<and> length [9 :: byte] \<noteq> 32
   \<and> computeForkDataRoot sample_htr (Some [1, 2, 3, 4, 5]) (Some [9])
       = Inr (bytes32_of [1, 2, 3, 4, 5, 9])
   \<and> ComputeDomain sample_htr sample_cfg (bytes4_of [1, 0, 0, 0]) (Some [0, 0, 0, 1]) (Some [9])
       = Inr ([1, 0, 0, 0, 0, 0, 0, 1, 9] @ replicate 23 0)"
  by (simp add: ComputeDomain_unfold computeForkDataRoot_def slice_bytes_def
        bytes32_list_of bytes4_list_of)

section \<open>Determinism\<close>

text \<open>
  Claim C10. When the engine and the configuration provider are deterministic, so is
  each of the three operations: two runs on the same arguments end in the same result,
  a failure included.
\<close>

theorem operations_deterministic:
  assumes "deterministic E" and "single_valued_config C"
  shows "(computeForkDataRoot_rel E version root r1 \<and> computeForkDataRoot_rel E version root r2
            \<longrightarrow> r1 = r2)
       \<and> (ComputeDomain_rel E C domainType forkVersion genesisValidatorsRoot d1
            \<and> ComputeDomain_rel E C domainType forkVersion genesisValidatorsRoot d2
            \<longrightarrow> d1 = d2)
       \<and> (ComputeSigningRoot_rel E object domain' s1 \<and> ComputeSigningRoot_rel E object domain' s2
            \<longrightarrow> s1 = s2)"
  using assms
  by (blast intro: computeForkDataRoot_rel_det ComputeDomain_rel_det ComputeSigningRoot_rel_det)

theorem operations_deterministic_witness:
  "deterministic (\<lambda>obj res. res = sample_htr obj)
   \<and> single_valued_config (\<lambda>c. c = sample_cfg)
   \<and> ComputeDomain_rel (\<lambda>obj res. res = sample_htr obj) (\<lambda>c. c = sample_cfg)
         (bytes4_of [1, 0, 0, 0]) None None
         (ComputeDomain sample_htr sample_cfg (bytes4_of [1, 0, 0, 0]) None None)
   \<and> ComputeDomain_rel (\<lambda>obj res. res = sample_htr obj) (\<lambda>c. c = sample_cfg)
         (bytes4_of [1, 0, 0, 0]) None None
         (domain (bytes4_of [1, 0, 0, 0])
            (bytes32_list (bytes32_of ([0, 0, 16, 32] @ replicate 32 0))))
   \<and> ComputeDomain sample_htr sample_cfg (bytes4_of [1, 0, 0, 0]) None None
       = Inr ([1, 0, 0, 0, 0, 0, 16, 32] @ replicate 24 0)
   \<and> ComputeSigningRoot_rel (\<lambda>obj res. res = sample_htr obj) (OtherObj 0) (Some [5])
         (ComputeSigningRoot sample_htr (OtherObj 0) (Some [5]))
   \<and> ComputeSigningRoot_rel (\<lambda>obj res. res = sample_htr obj) (OtherObj 0) (Some [5])
         (Inl (ComputationError ''unsupported object''))
   \<and> ComputeSigningRoot sample_htr (OtherObj 0) (Some [5])
       = Inl (ComputationError ''unsupported object'')"
proof -
  let ?E = "\<lambda>obj res. res = sample_htr obj" and ?C = "\<lambda>c. c = sample_cfg"
  let ?t = "bytes4_of [1, 0, 0, 0]"
  have E: "deterministic ?E" and C: "single_valued_config ?C"
    by (simp_all add: deterministic_def single_valued_config_def)
  have d1: "ComputeDomain_rel ?E ?C ?t None None (ComputeDomain sample_htr sample_cfg ?t None None)"
    by (simp add: ComputeDomain_rel_graph)
  have fv: "defaultForkVersion_rel ?C None (GenesisForkVersion sample_cfg)"
    by (rule fv_nil) simp
  have gvr: "defaultGenesisRoot_rel ?C None (Some (bytes32_list (ZeroHash sample_cfg)))"
    by (rule gvr_nil) simp
  have root: "computeForkDataRoot_rel ?E (GenesisForkVersion sample_cfg)
                (Some (bytes32_list (ZeroHash sample_cfg)))
                (Inr (bytes32_of ([0, 0, 16, 32] @ replicate 32 0)))"
    by (rule cfdr_ok) (simp add: sample_cfg_def slice_bytes_def bytes32_list_of)
  have d2: "ComputeDomain_rel ?E ?C ?t None None
              (domain ?t (bytes32_list (bytes32_of ([0, 0, 16, 32] @ replicate 32 0))))"
    by (rule cd_ok [OF fv gvr root])
  have s1: "ComputeSigningRoot_rel ?E (OtherObj 0) (Some [5])
              (ComputeSigningRoot sample_htr (OtherObj 0) (Some [5]))"
    by (simp add: ComputeSigningRoot_rel_graph)
  have s2: "ComputeSigningRoot_rel ?E (OtherObj 0) (Some [5])
              (Inl (ComputationError ''unsupported object''))"
    by (rule csr_err) simp
  note det = operations_deterministic [OF E C]
  have "ComputeDomain sample_htr sample_cfg ?t None None
          = domain ?t (bytes32_list (bytes32_of ([0, 0, 16, 32] @ replicate 32 0)))"
    by (rule det [THEN conjunct2, THEN conjunct1, THEN mp, OF conjI [OF d1 d2]])
  then have dom: "ComputeDomain sample_htr sample_cfg ?t None None
               = Inr ([1, 0, 0, 0, 0, 0, 16, 32] @ replicate 24 0)"
    by (simp add: domain_def bytes32_list_of bytes4_list_of)
  have sr: "ComputeSigningRoot sample_htr (OtherObj 0) (Some [5])
              = Inl (ComputationError ''unsupported object'')"
    by (rule det [THEN conjunct2, THEN conjunct2, THEN mp, OF conjI [OF s1 s2]])
  show ?thesis
    by (intro conjI) (rule E C d1 d2 dom s1 s2 sr)+
qed

end
